theory Spec2Isabelle
  imports Main
begin

section \<open>Python values used by met_visualization_project.py\<close>

text \<open>
  The script reads MetObjects.csv with \<^verbatim>\<open>dtype=str\<close>: every cell is either a text or
  missing (pandas' NaN). A cell is therefore a \<open>string option\<close>, \<open>None\<close> being NaN.
  A text is a list of characters, each read as one code point below 256.
  Exceptions are values of \<open>py_error\<close>; a computation that may raise returns
  \<open>py_error + 'a\<close> with \<open>Inl\<close> the exception.
\<close>

datatype py_error = NameError | TypeError | IndexError | KeyError | LookupError

definition py_str :: "string option \<Rightarrow> string" where
  \<comment> \<open>\<^verbatim>\<open>str(x)\<close> of a cell: a text is itself, \<^verbatim>\<open>str(float('nan'))\<close> is \<^verbatim>\<open>'nan'\<close>.\<close>
  "py_str v = (case v of None \<Rightarrow> ''nan'' | Some s \<Rightarrow> s)"

definition getitem :: "'a list \<Rightarrow> nat \<Rightarrow> py_error + 'a" where
  \<comment> \<open>\<^verbatim>\<open>xs[i]\<close> for a literal index \<open>i \<ge> 0\<close>: IndexError out of range.\<close>
  "getitem xs i = (if i < length xs then Inr (xs ! i) else Inl IndexError)"

definition isspace :: "char \<Rightarrow> bool" where
  \<comment> \<open>The code points below 256 for which \<^verbatim>\<open>str.isspace\<close> holds.\<close>
  "isspace c = (c \<in> set [CHR 0x09, CHR 0x0A, CHR 0x0B, CHR 0x0C, CHR 0x0D,
                          CHR 0x1C, CHR 0x1D, CHR 0x1E, CHR 0x1F, CHR 0x20,
                          CHR 0x85, CHR 0xA0])"

function split_ws :: "string \<Rightarrow> string list" where
  \<comment> \<open>\<^verbatim>\<open>s.split()\<close>: the maximal runs of non-whitespace characters, in order.\<close>
  "split_ws [] = []"
| "split_ws (c # cs) =
     (if isspace c then split_ws cs
      else takeWhile (\<lambda>x. \<not> isspace x) (c # cs) # split_ws (dropWhile (\<lambda>x. \<not> isspace x) cs))"
  by pat_completeness auto
termination
  by (relation "measure length") (auto simp: length_dropWhile_le less_Suc_eq_le)

fun split_on :: "char \<Rightarrow> string \<Rightarrow> string list" where
  \<comment> \<open>\<^verbatim>\<open>s.split(sep)\<close> for a one-character separator: one more part than separators.\<close>
  "split_on sep [] = [[]]"
| "split_on sep (c # cs) =
     (if c = sep then [] # split_on sep cs
      else (case split_on sep cs of p # ps \<Rightarrow> (c # p) # ps | [] \<Rightarrow> [[c]]))"

fun startswith :: "string \<Rightarrow> string \<Rightarrow> bool" where
  "startswith s [] = True"
| "startswith [] (p # ps) = False"
| "startswith (c # cs) (p # ps) = (c = p \<and> startswith cs ps)"

fun contains :: "string \<Rightarrow> string \<Rightarrow> bool" where
  \<comment> \<open>\<^verbatim>\<open>needle in hay\<close> on texts: \<open>contains hay needle\<close>.\<close>
  "contains [] needle = (needle = [])"
| "contains (c # cs) needle = (startswith (c # cs) needle \<or> contains cs needle)"

section \<open>The heuristic cleaner of problem locations\<close>

definition discards :: "string set" where
  "discards = set [''or'', ''and'', ''(?)'', ''probably'']"

definition directions :: "string set" where
  "directions = set [''Northern'', ''Western'', ''Sothern'', ''Southern'', ''South'',
                     ''Central'', ''Lower'']"

definition islands :: "string list" where
  "islands = [''Tahiti'', ''Mangareva'']"

definition outliers :: "(string \<times> string) list" where
  "outliers =
     [(''Democratic Republic of the Congo'', ''Congo (the Democratic Republic of the)''),
      (''Tibet'', ''China''),
      (''Iran (Persia)'', ''Iran''),
      (''New Spain (Mexico)'', ''Mexico'')]"

definition dict_getitem :: "(string \<times> string) list \<Rightarrow> string \<Rightarrow> py_error + string" where
  "dict_getitem d k = (case map_of d k of None \<Rightarrow> Inl KeyError | Some v \<Rightarrow> Inr v)"

definition located :: "py_error + string \<Rightarrow> py_error + string option" where
  \<comment> \<open>A text bound to \<^verbatim>\<open>cleaned_location\<close>; the exception passes through.\<close>
  "located r = (case r of Inl e \<Rightarrow> Inl e | Inr s \<Rightarrow> Inr (Some s))"

definition clean_up_location_problems :: "string \<Rightarrow> py_error + string option" where
  \<comment> \<open>The returned \<open>None\<close> is \<^verbatim>\<open>np.nan\<close>. \<^verbatim>\<open>len(list(set(parts)))\<close> is the number of
      distinct parts; a non-empty \<^verbatim>\<open>set.intersection\<close> is true.\<close>
  "clean_up_location_problems entry =
     (if CHR ''|'' \<in> set entry then
        (let parts = split_on CHR ''|'' entry in
         if card (set parts) = 1 then located (getitem parts 0) else Inr None)
      else if set (split_ws entry) \<inter> discards \<noteq> {} then Inr None
      else if set (split_ws entry) \<inter> directions \<noteq> {} then located (getitem (split_ws entry) 1)
      else if entry = ''England'' then Inr (Some ''United Kingdom'')
      else if ''present-day'' \<in> set (split_ws entry) then located (getitem (split_ws entry) 1)
      else if contains entry ''formerly'' then located (getitem (split_ws entry) 0)
      else if entry \<in> set islands then Inr (Some ''French Polynesia'')
      else if entry \<in> set (map fst outliers) then located (dict_getitem outliers entry)
      else Inr None)"




fun join :: "char \<Rightarrow> string list \<Rightarrow> string" where
  \<comment> \<open>\<^verbatim>\<open>sep.join(parts)\<close>, used only to state what \<open>split_on\<close> computes.\<close>
  "join sep [] = []"
| "join sep [p] = p"
| "join sep (p # q # ps) = p @ sep # join sep (q # ps)"

section \<open>Rows and the cleaned data frame\<close>

record row =
  Object_Number :: "string option"
  AccessionYear :: "string option"
  Department :: "string option"
  Culture :: "string option"
  Country :: "string option"
  Is_Highlight :: "string option"

record cleaned_row = row +
  Cleaned_Accession_Year :: "nat option"
  Location :: "string option"

record highlight_row = cleaned_row +
  Improved_Location :: "string option"

definition sample_row :: "string option \<Rightarrow> string option \<Rightarrow> string option \<Rightarrow> row" where
  \<comment> \<open>A record of the input file with the given country, culture and highlight cells.\<close>
  "sample_row country culture flag =
     \<lparr>Object_Number = Some ''14.40.687'', AccessionYear = Some ''1914'',
      Department = Some ''Asian Art'', Culture = culture, Country = country,
      Is_Highlight = flag\<rparr>"

definition department_astype_str :: "row \<Rightarrow> row" where
  "department_astype_str r = r\<lparr>Department := Some (py_str (Department r))\<rparr>"

definition drop_libraries :: "row list \<Rightarrow> row list" where
  "drop_libraries rows = filter (\<lambda>r. Department r \<noteq> Some ''The Libraries'') rows"

subsection \<open>Cleaned accession year\<close>

definition isdigit09 :: "char \<Rightarrow> bool" where
  \<comment> \<open>The character class \<^verbatim>\<open>[0-9]\<close>.\<close>
  "isdigit09 c = (c \<in> set ''0123456789'')"

fun search_4digits :: "string \<Rightarrow> string option" where
  \<comment> \<open>\<^verbatim>\<open>re.compile(r'[0-9]{4}').search(entry)\<close>: the match at the leftmost position
      where the pattern matches, \<open>None\<close> when it matches nowhere.\<close>
  "search_4digits [] = None"
| "search_4digits (c # cs) =
     (if 4 \<le> length (c # cs) \<and> list_all isdigit09 (take 4 (c # cs))
      then Some (take 4 (c # cs)) else search_4digits cs)"

definition group0 :: "string option \<Rightarrow> py_error + string" where
  \<comment> \<open>\<^verbatim>\<open>result[0]\<close>: subscripting \<^verbatim>\<open>None\<close> raises TypeError.\<close>
  "group0 result = (case result of None \<Rightarrow> Inl TypeError | Some m \<Rightarrow> Inr m)"

definition cleaned_year_entry :: "string option \<Rightarrow> string" where
  \<comment> \<open>One turn of the loop that fills \<^verbatim>\<open>cleaned_year_list\<close>; the bare \<^verbatim>\<open>except\<close>
      appends the empty text.\<close>
  "cleaned_year_entry entry =
     (case group0 (search_4digits (py_str entry)) of Inr m \<Rightarrow> m | Inl e \<Rightarrow> [])"

definition digit_value :: "char \<Rightarrow> nat" where
  "digit_value c = of_char c - 48"

definition decimal :: "string \<Rightarrow> nat" where
  "decimal s = foldl (\<lambda>n c. 10 * n + digit_value c) 0 s"

definition to_numeric :: "string \<Rightarrow> nat option" where
  \<comment> \<open>\<^verbatim>\<open>pd.to_numeric(..., errors='coerce')\<close> on the texts the loop produces: a run of
      digits is its number, the empty text is NaN.\<close>
  "to_numeric s = (if s \<noteq> [] \<and> list_all isdigit09 s then Some (decimal s) else None)"

definition cleaned_accession_year :: "string option \<Rightarrow> nat option" where
  "cleaned_accession_year entry = to_numeric (cleaned_year_entry entry)"

definition four_digits_at :: "string \<Rightarrow> nat \<Rightarrow> bool" where
  \<comment> \<open>Follows the specification's words: four consecutive digits occur in \<open>s\<close> from
      position \<open>i\<close> on.\<close>
  "four_digits_at s i = (i + 4 \<le> length s \<and> list_all isdigit09 (take 4 (drop i s)))"

subsection \<open>Location\<close>

definition clean_country_info_column :: "row \<Rightarrow> string option" where
  \<comment> \<open>Both cells are replaced by their \<^verbatim>\<open>str\<close> before the tests; \<^verbatim>\<open>not s\<close> holds of
      the empty text only.\<close>
  "clean_country_info_column r =
     (let country = py_str (Country r); culture = py_str (Culture r) in
      if country = [] \<and> culture = [] then None
      else if country = [] then Some culture
      else Some country)"

definition clean :: "row \<Rightarrow> cleaned_row" where
  "clean r =
     \<lparr>Object_Number = Object_Number r, AccessionYear = AccessionYear r,
      Department = Department r, Culture = Culture r, Country = Country r,
      Is_Highlight = Is_Highlight r,
      Cleaned_Accession_Year = cleaned_accession_year (AccessionYear r),
      Location = clean_country_info_column r\<rparr>"

definition load_clean :: "row list \<Rightarrow> cleaned_row list" where
  \<comment> \<open>Lines 36 to 71: the frame \<^verbatim>\<open>df\<close> with its two derived columns.\<close>
  "load_clean rows = map clean (drop_libraries (map department_astype_str rows))"

subsection \<open>Aggregate tables\<close>

definition value_counts :: "'a option list \<Rightarrow> ('a \<times> nat) list" where
  \<comment> \<open>\<^verbatim>\<open>Series.value_counts()\<close>: one entry per distinct value that is not NaN, with the
      number of its occurrences. The table is read as a map from value to count; the
      order pandas gives its lines is not modelled.\<close>
  "value_counts col =
     (let xs = List.map_filter (\<lambda>x. x) col in map (\<lambda>k. (k, count_list xs k)) (remdups xs))"

definition dept_info :: "cleaned_row list \<Rightarrow> (string \<times> nat) list" where
  "dept_info d = value_counts (map Department d)"

definition filtered_values_dept :: "cleaned_row list \<Rightarrow> (string \<times> nat) list" where
  \<comment> \<open>A NaN year compares false with \<^verbatim>\<open><= 1923\<close>.\<close>
  "filtered_values_dept d =
     value_counts (map Department
       (filter (\<lambda>r. case Cleaned_Accession_Year r of None \<Rightarrow> False | Some y \<Rightarrow> y \<le> 1923) d))"

definition drop_lehman :: "((string \<times> nat) \<times> nat) list \<Rightarrow> ((string \<times> nat) \<times> nat) list" where
  "drop_lehman t = filter (\<lambda>((dep, y), n). dep \<noteq> ''Robert Lehman Collection'') t"

definition numbers_by_year :: "cleaned_row list \<Rightarrow> ((string \<times> nat) \<times> nat) list" where
  \<comment> \<open>\<^verbatim>\<open>groupby('Department')[["Cleaned Accession Year"]].value_counts()\<close>: counts per
      department and year, rows without a year left out.\<close>
  "numbers_by_year d =
     drop_lehman (value_counts
       (map (\<lambda>r. map_option (\<lambda>y. (py_str (Department r), y)) (Cleaned_Accession_Year r)) d))"

definition numbers_by_decade :: "cleaned_row list \<Rightarrow> ((string \<times> nat) \<times> nat) list" where
  "numbers_by_decade d =
     drop_lehman (value_counts
       (map (\<lambda>r. map_option (\<lambda>y. (py_str (Department r), (y div 10) * 10))
                   (Cleaned_Accession_Year r)) d))"

subsection \<open>Highlights\<close>

definition is_highlight_astype_str :: "cleaned_row \<Rightarrow> cleaned_row" where
  "is_highlight_astype_str r = r\<lparr>Is_Highlight := Some (py_str (Is_Highlight r))\<rparr>"

definition is_highlight :: "cleaned_row \<Rightarrow> bool" where
  "is_highlight r = (Is_Highlight r = Some ''True'')"

definition module_names :: "string list" where
  \<comment> \<open>Every name the module binds: its imports, then its variables and functions.\<close>
  "module_names =
     [''Dash'', ''dcc'', ''html'', ''get_asset_url'', ''px'', ''pd'', ''np'', ''re'',
      ''background_color'', ''app'', ''df'', ''cleaned_year_list'', ''entry'', ''pattern'',
      ''result'', ''clean_country_info_column'', ''dept_info'', ''fig1'', ''filtered_values'',
      ''filtered_values_dept'', ''fig2'', ''acquisition_df'', ''acquisition_numbers'',
      ''numbers_df'', ''numbers_sorted'', ''my_colors'', ''fig3'', ''pretty_decade_labels'',
      ''new_entry'', ''my_colors_sorted'', ''fig4'', ''highlight_values'', ''check_against_iso'',
      ''clean_up_location_problems'', ''unique_locations'', ''problem_locations'',
      ''improved_locations'', ''cleaned_location'', ''highlight_numbers'', ''fig5'',
      ''opening_text'', ''collections_text'', ''acquisitions_over_time_text'',
      ''acquisitions_by_decade_text'', ''highlights_text'']"

definition lookup_global :: "string \<Rightarrow> 'a \<Rightarrow> py_error + 'a" where
  \<comment> \<open>Reading a global name: NameError when the module does not bind it.\<close>
  "lookup_global name v = (if name \<in> set module_names then Inr v else Inl NameError)"

definition check_against_iso :: "(string \<Rightarrow> py_error + 'c) \<Rightarrow> string \<Rightarrow> bool" where
  \<comment> \<open>\<open>search_fuzzy\<close> stands for \<^verbatim>\<open>pycountry.countries.search_fuzzy\<close>, a library that is
      not part of the repository: it returns the countries found or raises LookupError.
      The bare \<^verbatim>\<open>except\<close> turns every exception of the \<^verbatim>\<open>try\<close> body into \<^verbatim>\<open>False\<close>,
      the NameError of an unbound \<^verbatim>\<open>pycountry\<close> included.\<close>
  "check_against_iso search_fuzzy country =
     (case lookup_global ''pycountry'' search_fuzzy of
        Inl e \<Rightarrow> False
      | Inr lookup \<Rightarrow> (case lookup country of Inl e \<Rightarrow> False | Inr found \<Rightarrow> True))"

definition lookup_succeeds :: "string \<Rightarrow> py_error + string list" where
  \<comment> \<open>A country reference in which every lookup finds its argument.\<close>
  "lookup_succeeds country = Inr [country]"


definition unique :: "'a list \<Rightarrow> 'a list" where
  \<comment> \<open>\<^verbatim>\<open>Series.unique()\<close>: the distinct values in order of first appearance.\<close>
  "unique xs = rev (remdups (rev xs))"

definition problem_locations :: "(string \<Rightarrow> py_error + 'c) \<Rightarrow> string option list \<Rightarrow> string list" where
  "problem_locations search_fuzzy unique_locations =
     filter (\<lambda>entry. check_against_iso search_fuzzy entry = False) (map py_str unique_locations)"

definition improved_location :: "string list \<Rightarrow> string option \<Rightarrow> py_error + string option" where
  \<comment> \<open>One turn of the loop that fills \<^verbatim>\<open>improved_locations\<close>.\<close>
  "improved_location problems loc =
     (let entry = py_str loc in
      if entry \<in> set problems then clean_up_location_problems entry else Inr (Some entry))"

fun improved_locations :: "string list \<Rightarrow> string option list \<Rightarrow> py_error + string option list" where
  \<comment> \<open>The loop: the first exception ends it, and the script with it.\<close>
  "improved_locations problems [] = Inr []"
| "improved_locations problems (loc # locs) =
     (case improved_location problems loc of
        Inl e \<Rightarrow> Inl e
      | Inr c \<Rightarrow> (case improved_locations problems locs of
                    Inl e \<Rightarrow> Inl e
                  | Inr cs \<Rightarrow> Inr (c # cs)))"

definition with_improved :: "cleaned_row \<Rightarrow> string option \<Rightarrow> highlight_row" where
  "with_improved r c =
     \<lparr>Object_Number = Object_Number r, AccessionYear = AccessionYear r,
      Department = Department r, Culture = Culture r, Country = Country r,
      Is_Highlight = Is_Highlight r, Cleaned_Accession_Year = Cleaned_Accession_Year r,
      Location = Location r, Improved_Location = c\<rparr>"

definition dropna :: "highlight_row list \<Rightarrow> highlight_row list" where
  \<comment> \<open>\<^verbatim>\<open>dropna(subset="Improved Location")\<close>.\<close>
  "dropna hv = filter (\<lambda>h. Improved_Location h \<noteq> None) hv"

record frames =
  df :: "cleaned_row list"
  highlight_values :: "highlight_row list"
  highlight_numbers :: "(string \<times> nat) list"

definition highlight_stage :: "(string \<Rightarrow> py_error + 'c) \<Rightarrow> cleaned_row list \<Rightarrow> py_error + frames" where
  \<comment> \<open>Lines 190 to 265, on the frame \<^verbatim>\<open>df\<close> whose flag column is already text:
      \<^verbatim>\<open>highlight_values\<close> is a selection of \<^verbatim>\<open>df\<close>, and only it receives the new
      column, loses rows and is counted.\<close>
  "highlight_stage search_fuzzy d =
     (let hv = filter is_highlight d;
          problems = problem_locations search_fuzzy (unique (map Location hv))
      in case improved_locations problems (map Location hv) of
           Inl e \<Rightarrow> Inl e
         | Inr cs \<Rightarrow>
             (let kept = dropna (map2 with_improved hv cs)
              in Inr \<lparr>df = d, highlight_values = kept,
                      highlight_numbers = value_counts (map Improved_Location kept)\<rparr>))"

record aggregates =
  total_by_department :: "(string \<times> nat) list"
  total_by_department_1923 :: "(string \<times> nat) list"
  acquired_by_year :: "((string \<times> nat) \<times> nat) list"
  acquired_by_decade :: "((string \<times> nat) \<times> nat) list"

definition pipeline :: "(string \<Rightarrow> py_error + 'c) \<Rightarrow> row list \<Rightarrow> py_error + aggregates \<times> frames" where
  \<comment> \<open>The module from the loaded records to the tables the charts are drawn from.\<close>
  "pipeline search_fuzzy rows =
     (let d = load_clean rows;
          tables = \<lparr>total_by_department = dept_info d,
                    total_by_department_1923 = filtered_values_dept d,
                    acquired_by_year = numbers_by_year d,
                    acquired_by_decade = numbers_by_decade d\<rparr>
      in case highlight_stage search_fuzzy (map is_highlight_astype_str d) of
           Inl e \<Rightarrow> Inl e
         | Inr f \<Rightarrow> Inr (tables, f))"

section \<open>Facts about splitting\<close>

lemma split_on_not_Nil: "split_on sep s \<noteq> []"
  by (induction s) (auto split: list.splits)

lemma join_split_on: "join sep (split_on sep s) = s"
proof (induction s)
  case Nil
  show ?case by simp
next
  case (Cons c cs)
  obtain p ps where ps: "split_on sep cs = p # ps"
    using split_on_not_Nil [of sep cs] by (cases "split_on sep cs") auto
  with Cons show ?case by (cases ps) auto
qed

lemma split_on_parts_free: "p \<in> set (split_on sep s) \<Longrightarrow> sep \<notin> set p"
proof (induction s arbitrary: p)
  case Nil
  then show ?case by simp
next
  case (Cons c cs)
  obtain q qs where qs: "split_on sep cs = q # qs"
    using split_on_not_Nil [of sep cs] by (cases "split_on sep cs") auto
  from Cons.IH [unfolded qs] have q: "sep \<notin> set q" and rest: "\<And>x. x \<in> set qs \<Longrightarrow> sep \<notin> set x"
    by auto
  show ?case
  proof (cases "c = sep")
    case True
    with Cons.prems qs q rest show ?thesis by auto
  next
    case False
    with Cons.prems qs q rest show ?thesis by auto
  qed
qed

lemma split_ws_words: "w \<in> set (split_ws s) \<Longrightarrow> w \<noteq> [] \<and> (\<forall>c \<in> set w. \<not> isspace c)"
proof (induction s arbitrary: w rule: split_ws.induct)
  case 1
  then show ?case by simp
next
  case (2 c cs)
  show ?case
  proof (cases "isspace c")
    case True
    with 2 show ?thesis by simp
  next
    case False
    with "2.prems" have "w = c # takeWhile (\<lambda>x. \<not> isspace x) cs
        \<or> w \<in> set (split_ws (dropWhile (\<lambda>x. \<not> isspace x) cs))"
      by simp
    then show ?thesis
    proof
      assume "w = c # takeWhile (\<lambda>x. \<not> isspace x) cs"
      with False show ?thesis by (auto dest: set_takeWhileD)
    next
      assume "w \<in> set (split_ws (dropWhile (\<lambda>x. \<not> isspace x) cs))"
      with "2.IH"(2) [OF False] show ?thesis by blast
    qed
  qed
qed

lemma card_set_one_iff: "card (set xs) = 1 \<longleftrightarrow> xs \<noteq> [] \<and> (\<forall>x \<in> set xs. x = hd xs)"
proof
  assume "card (set xs) = 1"
  then obtain v where v: "set xs = {v}" by (auto simp: card_1_singleton_iff)
  then have "xs \<noteq> []" by auto
  moreover from v this have "hd xs = v" by (cases xs) auto
  ultimately show "xs \<noteq> [] \<and> (\<forall>x \<in> set xs. x = hd xs)" using v by auto
next
  assume a: "xs \<noteq> [] \<and> (\<forall>x \<in> set xs. x = hd xs)"
  then have "set xs = {hd xs}" by (cases xs) auto
  then show "card (set xs) = 1" by simp
qed

lemmas cleaner_defs = clean_up_location_problems_def isspace_def discards_def directions_def
  islands_def outliers_def getitem_def located_def dict_getitem_def

section \<open>The cleaner raises on one-word inputs\<close>

text \<open>
  Claim C10 says that \<open>clean_up_location_problems\<close> returns a value for every text and
  never raises. The source reads \<^verbatim>\<open>entry.split()[1]\<close> in the directional clause and in
  the \<^verbatim>\<open>"present-day"\<close> clause; on a text of one such word the list has one element
  and the read raises IndexError, which nothing catches.
\<close>

theorem clean_up_raises_on_bare_words:
  "clean_up_location_problems ''Northern'' = Inl IndexError \<and>
   clean_up_location_problems ''present-day'' = Inl IndexError"
  by (simp add: clean_up_location_problems_def isspace_def discards_def directions_def
      getitem_def located_def)

section \<open>The separator clause\<close>

text \<open>
  Claim C5: for every text that contains the separator \<^verbatim>\<open>|\<close>, the cleaner returns the
  shared value when all parts between separators are equal, and returns absent (NaN)
  when two parts differ. It never raises on such a text.
\<close>

theorem separator_clause:
  assumes "CHR ''|'' \<in> set entry"
  shows "((\<forall>p \<in> set (split_on CHR ''|'' entry). p = v)
            \<longrightarrow> clean_up_location_problems entry = Inr (Some v)) \<and>
         ((\<exists>p \<in> set (split_on CHR ''|'' entry). \<exists>q \<in> set (split_on CHR ''|'' entry). p \<noteq> q)
            \<longrightarrow> clean_up_location_problems entry = Inr None)"
proof (intro conjI impI)
  let ?parts = "split_on CHR ''|'' entry"
  have ne: "?parts \<noteq> []" by (rule split_on_not_Nil)
  {
    assume all: "\<forall>p \<in> set ?parts. p = v"
    from ne all have hd: "hd ?parts = v" by (cases ?parts) auto
    from ne all hd have one: "card (set ?parts) = 1"
      using card_set_one_iff [of ?parts] by blast
    from ne hd have "getitem ?parts 0 = Inr v"
      by (cases ?parts) (auto simp: getitem_def)
    with assms one show "clean_up_location_problems entry = Inr (Some v)"
      by (simp add: clean_up_location_problems_def located_def)
  }
  {
    assume "\<exists>p \<in> set ?parts. \<exists>q \<in> set ?parts. p \<noteq> q"
    then have "card (set ?parts) \<noteq> 1"
      using card_set_one_iff [of ?parts] by metis
    with assms show "clean_up_location_problems entry = Inr None"
      by (simp add: clean_up_location_problems_def)
  }
qed

theorem separator_clause_witness:
  "clean_up_location_problems ''France|France'' = Inr (Some ''France'') \<and>
   clean_up_location_problems ''France|Italy'' = Inr None"
proof -
  have bar1: "CHR ''|'' \<in> set ''France|France''" by simp
  have bar2: "CHR ''|'' \<in> set ''France|Italy''" by simp
  have same: "\<forall>p \<in> set (split_on CHR ''|'' ''France|France''). p = ''France''" by simp
  have diff: "\<exists>p \<in> set (split_on CHR ''|'' ''France|Italy'').
               \<exists>q \<in> set (split_on CHR ''|'' ''France|Italy''). p \<noteq> q"
    by (rule bexI [of _ "''France''"], rule bexI [of _ "''Italy''"]) simp_all
  from separator_clause [OF bar1, of "''France''"] same
    separator_clause [OF bar2, of "''Italy''"] diff
  show ?thesis by blast
qed

section \<open>The synonym table\<close>




section \<open>The directional clause\<close>




section \<open>The cleaned accession year\<close>

lemma four_digits_at_Nil: "\<not> four_digits_at [] i"
  by (simp add: four_digits_at_def)

lemma four_digits_at_Suc: "four_digits_at (c # cs) (Suc i) = four_digits_at cs i"
  by (auto simp: four_digits_at_def)

lemma four_digits_at_0:
  "four_digits_at (c # cs) 0 = (4 \<le> length (c # cs) \<and> list_all isdigit09 (take 4 (c # cs)))"
  by (simp add: four_digits_at_def)

lemma search_4digits_Cons:
  "search_4digits (c # cs) =
     (if four_digits_at (c # cs) 0 then Some (take 4 (c # cs)) else search_4digits cs)"
  by (simp only: search_4digits.simps four_digits_at_0)

lemma search_4digits_hit:
  "four_digits_at (c # cs) 0 \<Longrightarrow> search_4digits (c # cs) = Some (take 4 (c # cs))"
  by (simp only: search_4digits_Cons if_True)

lemma search_4digits_skip:
  "\<not> four_digits_at (c # cs) 0 \<Longrightarrow> search_4digits (c # cs) = search_4digits cs"
  by (simp only: search_4digits_Cons if_False)

lemma search_4digits_None: "search_4digits s = None \<longleftrightarrow> (\<forall>i. \<not> four_digits_at s i)"
proof (induction s)
  case Nil
  show ?case by (simp add: four_digits_at_Nil)
next
  case (Cons c cs)
  show ?case
  proof (cases "four_digits_at (c # cs) 0")
    case True
    then have "search_4digits (c # cs) \<noteq> None" by (simp only: search_4digits_hit) simp
    with True show ?thesis by blast
  next
    case False
    then have "search_4digits (c # cs) = search_4digits cs" by (rule search_4digits_skip)
    moreover have "(\<forall>i. \<not> four_digits_at (c # cs) i) \<longleftrightarrow> (\<forall>i. \<not> four_digits_at cs i)"
    proof
      assume a: "\<forall>i. \<not> four_digits_at (c # cs) i"
      show "\<forall>i. \<not> four_digits_at cs i"
      proof
        fix i from a have "\<not> four_digits_at (c # cs) (Suc i)" by blast
        then show "\<not> four_digits_at cs i" by (simp add: four_digits_at_Suc)
      qed
    next
      assume a: "\<forall>i. \<not> four_digits_at cs i"
      show "\<forall>i. \<not> four_digits_at (c # cs) i"
      proof
        fix i show "\<not> four_digits_at (c # cs) i"
          using a False by (cases i) (simp_all add: four_digits_at_Suc)
      qed
    qed
    ultimately show ?thesis using Cons.IH by simp
  qed
qed

lemma search_4digits_first:
  "four_digits_at s i \<Longrightarrow> (\<forall>k < i. \<not> four_digits_at s k)
     \<Longrightarrow> search_4digits s = Some (take 4 (drop i s))"
proof (induction s arbitrary: i)
  case Nil
  then show ?case by (simp add: four_digits_at_Nil)
next
  case (Cons c cs)
  show ?case
  proof (cases i)
    case 0
    with Cons.prems(1) show ?thesis by (simp only: search_4digits_hit drop_0)
  next
    case (Suc j)
    with Cons.prems(2) have no0: "\<not> four_digits_at (c # cs) 0" by blast
    from Suc Cons.prems(1) have at: "four_digits_at cs j" by (simp add: four_digits_at_Suc)
    have before: "\<forall>k < j. \<not> four_digits_at cs k"
    proof (intro allI impI)
      fix k assume "k < j"
      with Suc Cons.prems(2) have "\<not> four_digits_at (c # cs) (Suc k)" by simp
      then show "\<not> four_digits_at cs k" by (simp add: four_digits_at_Suc)
    qed
    from no0 have "search_4digits (c # cs) = search_4digits cs" by (rule search_4digits_skip)
    with Cons.IH [OF at before] Suc show ?thesis by simp
  qed
qed

lemma to_numeric_four_digits:
  assumes "four_digits_at s i"
  shows "to_numeric (take 4 (drop i s)) = Some (decimal (take 4 (drop i s)))"
proof -
  from assms have "length (take 4 (drop i s)) = 4" by (auto simp: four_digits_at_def)
  then have "take 4 (drop i s) \<noteq> []" by auto
  with assms show ?thesis by (simp add: to_numeric_def four_digits_at_def)
qed

text \<open>
  Claim C3: for every accession-year cell, read as the text \<^verbatim>\<open>str\<close> gives it, the cleaned
  accession year is the number written by the first four consecutive digits of the
  text, and it is absent exactly when the text holds no four consecutive digits.
\<close>

theorem cleaned_accession_year_first_four_digits:
  "(cleaned_accession_year entry = None \<longleftrightarrow> (\<forall>i. \<not> four_digits_at (py_str entry) i)) \<and>
   (\<forall>i. four_digits_at (py_str entry) i \<and> (\<forall>k < i. \<not> four_digits_at (py_str entry) k)
      \<longrightarrow> cleaned_accession_year entry = Some (decimal (take 4 (drop i (py_str entry)))))"
proof (intro conjI allI impI)
  fix i
  assume a: "four_digits_at (py_str entry) i \<and> (\<forall>k < i. \<not> four_digits_at (py_str entry) k)"
  then have "search_4digits (py_str entry) = Some (take 4 (drop i (py_str entry)))"
    by (simp add: search_4digits_first)
  with a show "cleaned_accession_year entry = Some (decimal (take 4 (drop i (py_str entry))))"
    by (simp add: cleaned_accession_year_def cleaned_year_entry_def group0_def
        to_numeric_four_digits)
next
  show "cleaned_accession_year entry = None \<longleftrightarrow> (\<forall>i. \<not> four_digits_at (py_str entry) i)"
  proof
    assume none: "cleaned_accession_year entry = None"
    show "\<forall>i. \<not> four_digits_at (py_str entry) i"
    proof (rule ccontr)
      assume "\<not> (\<forall>i. \<not> four_digits_at (py_str entry) i)"
      then have ex: "\<exists>i. four_digits_at (py_str entry) i" by blast
      define m where "m = (LEAST i. four_digits_at (py_str entry) i)"
      from ex have at: "four_digits_at (py_str entry) m"
        unfolding m_def by (auto intro: LeastI)
      have "\<forall>k < m. \<not> four_digits_at (py_str entry) k"
        unfolding m_def by (auto dest: not_less_Least)
      with at have "search_4digits (py_str entry) = Some (take 4 (drop m (py_str entry)))"
        by (simp add: search_4digits_first)
      with at have "cleaned_accession_year entry \<noteq> None"
        by (simp add: cleaned_accession_year_def cleaned_year_entry_def group0_def
            to_numeric_four_digits)
      with none show False by simp
    qed
  next
    assume "\<forall>i. \<not> four_digits_at (py_str entry) i"
    then have "search_4digits (py_str entry) = None" by (simp add: search_4digits_None)
    then show "cleaned_accession_year entry = None"
      by (simp add: cleaned_accession_year_def cleaned_year_entry_def group0_def to_numeric_def)
  qed
qed
theorem cleaned_accession_year_witness:
  "cleaned_accession_year (Some ''ca. 18705'') = Some 1870 \<and> cleaned_accession_year None = None"
proof -
  have at: "four_digits_at (py_str (Some ''ca. 18705'')) 4"
    by (simp add: four_digits_at_def py_str_def isdigit09_def)
  have before: "\<forall>k < 4. \<not> four_digits_at (py_str (Some ''ca. 18705'')) k"
  proof (intro allI impI)
    fix k :: nat assume "k < 4"
    then consider "k = 0" | "k = 1" | "k = 2" | "k = 3" by linarith
    then show "\<not> four_digits_at (py_str (Some ''ca. 18705'')) k"
      by cases (simp_all add: four_digits_at_def py_str_def isdigit09_def)
  qed
  have nan: "\<forall>i. \<not> four_digits_at (py_str None) i"
  proof
    fix i show "\<not> four_digits_at (py_str None) i"
    proof (cases "i = 0")
      case True
      then show ?thesis by (simp add: four_digits_at_def py_str_def)
    next
      case False
      then show ?thesis by (simp add: four_digits_at_def py_str_def)
    qed
  qed
  from cleaned_accession_year_first_four_digits [of "Some ''ca. 18705''"] at before
  have "cleaned_accession_year (Some ''ca. 18705'')
          = Some (decimal (take 4 (drop 4 (py_str (Some ''ca. 18705'')))))"
    by blast
  moreover from cleaned_accession_year_first_four_digits [of None] nan
  have "cleaned_accession_year None = None" by blast
  ultimately show ?thesis by (simp add: py_str_def decimal_def digit_value_def)
qed

section \<open>The location column\<close>

lemma location_is_country_text:
  "Country r \<noteq> Some [] \<Longrightarrow> clean_country_info_column r = Some (py_str (Country r))"
  by (cases "Country r") (auto simp: clean_country_info_column_def py_str_def)

text \<open>
  Claim C1 says that Location is the country when it is present, else the culture when
  it is present, else absent. The source tests \<^verbatim>\<open>not row['Country']\<close> after replacing
  the cell by its \<^verbatim>\<open>str\<close>; a missing cell has become the text \<^verbatim>\<open>nan\<close>, which is not
  empty, so the culture branch and the absent branch are never taken: a record without
  country gets the Location \<^verbatim>\<open>nan\<close>, whatever its culture.
\<close>

theorem location_of_missing_country:
  "clean_country_info_column (sample_row None (Some ''French'') (Some ''False'')) = Some ''nan'' \<and>
   clean_country_info_column (sample_row None None (Some ''False'')) = Some ''nan''"
  by (simp add: clean_country_info_column_def sample_row_def py_str_def)

section \<open>The lookup in the country reference\<close>

lemma check_against_iso_False: "check_against_iso search_fuzzy country = False"
  by (simp add: check_against_iso_def lookup_global_def module_names_def)

lemma clean_sample:
  "clean (sample_row (Some c) None (Some f)) =
     \<lparr>Object_Number = Some ''14.40.687'', AccessionYear = Some ''1914'',
      Department = Some ''Asian Art'', Culture = None, Country = Some c,
      Is_Highlight = Some f, Cleaned_Accession_Year = Some 1914,
      Location = (if c = [] then Some ''nan'' else Some c)\<rparr>"
  by (simp add: clean_def sample_row_def clean_country_info_column_def py_str_def
      cleaned_accession_year_def cleaned_year_entry_def group0_def to_numeric_def
      isdigit09_def decimal_def digit_value_def)

text \<open>
  Claim C2 says that a location is a problem location exactly when its fuzzy lookup in
  the ISO reference fails, and that the name of a country of the reference is looked up
  with success and kept unchanged. The module never imports \<^verbatim>\<open>pycountry\<close>: the call
  raises NameError, the bare \<^verbatim>\<open>except\<close> answers \<^verbatim>\<open>False\<close>, and every location is a
  problem location. With a reference in which every lookup succeeds, \<^verbatim>\<open>France\<close> is
  still handed to the cleaner, which has no clause for it, and the highlight is dropped.
\<close>

theorem iso_lookup_unbound:
  "check_against_iso lookup_succeeds ''France'' = False \<and>
   highlight_stage lookup_succeeds [clean (sample_row (Some ''France'') None (Some ''True''))]
     = Inr \<lparr>df = [clean (sample_row (Some ''France'') None (Some ''True''))],
            highlight_values = [], highlight_numbers = []\<rparr>"
  by (simp add: check_against_iso_False clean_sample highlight_stage_def is_highlight_def
      problem_locations_def unique_def improved_location_def py_str_def dropna_def
      value_counts_def with_improved_def cleaner_defs)

section \<open>The highlight stage\<close>

lemma is_highlight_astype_str_text:
  "py_str (Is_Highlight (is_highlight_astype_str r)) = py_str (Is_Highlight r) \<and>
   Location (is_highlight_astype_str r) = Location r \<and>
   (Is_Highlight r \<noteq> None \<longrightarrow> is_highlight_astype_str r = r)"
  by (cases "Is_Highlight r") (auto simp: is_highlight_astype_str_def py_str_def)

lemma set_unique: "set (unique xs) = set xs"
  by (simp add: unique_def)

lemma improved_locations_Inr:
  "improved_locations problems locs = Inr cs
     \<Longrightarrow> list_all2 (\<lambda>loc c. improved_location problems loc = Inr c) locs cs"
  by (induction locs arbitrary: cs) (auto split: sum.splits)

lemma problem_locations_member:
  "loc \<in> set locs \<Longrightarrow> check_against_iso search_fuzzy (py_str loc) = False
     \<Longrightarrow> py_str loc \<in> set (problem_locations search_fuzzy (unique locs))"
  by (simp add: problem_locations_def set_unique)

lemma highlight_stage_Inr:
  assumes "highlight_stage search_fuzzy d = Inr s"
  shows "\<exists>cs. improved_locations
                 (problem_locations search_fuzzy (unique (map Location (filter is_highlight d))))
                 (map Location (filter is_highlight d)) = Inr cs
           \<and> df s = d
           \<and> highlight_values s = dropna (map2 with_improved (filter is_highlight d) cs)
           \<and> highlight_numbers s = value_counts (map Improved_Location (highlight_values s))"
  using assms by (auto simp: highlight_stage_def Let_def split: sum.splits)

lemma kept_row_origin:
  assumes "h \<in> set (dropna (map2 with_improved hv cs))"
  shows "\<exists>r c. (r, c) \<in> set (zip hv cs) \<and> h = with_improved r c \<and> c \<noteq> None"
  using assms by (auto simp: dropna_def with_improved_def)

text \<open>
  Claim C6: a problem location without separator that has one of the discard words
  (or, and, (?), probably) among its whitespace-separated words is cleaned to absent,
  and no record with that location is left in the highlight frame from which the
  aggregate is counted.
\<close>

theorem discard_clause:
  assumes "CHR ''|'' \<notin> set entry" and "set (split_ws entry) \<inter> discards \<noteq> {}"
  shows "clean_up_location_problems entry = Inr None \<and>
         (\<forall>s. check_against_iso search_fuzzy entry = False \<and> highlight_stage search_fuzzy d = Inr s
            \<longrightarrow> (\<forall>h \<in> set (highlight_values s). py_str (Location h) \<noteq> entry) \<and>
                highlight_numbers s = value_counts (map Improved_Location (highlight_values s)))"
proof (intro conjI allI impI)
  from assms show nan: "clean_up_location_problems entry = Inr None"
    by (simp add: clean_up_location_problems_def)
  fix s
  assume a: "check_against_iso search_fuzzy entry = False \<and> highlight_stage search_fuzzy d = Inr s"
  define hv where "hv = filter is_highlight d"
  define problems where "problems = problem_locations search_fuzzy (unique (map Location hv))"
  from a highlight_stage_Inr [of search_fuzzy d s]
  obtain cs where cs: "improved_locations problems (map Location hv) = Inr cs"
    and kept: "highlight_values s = dropna (map2 with_improved hv cs)"
    and counts: "highlight_numbers s = value_counts (map Improved_Location (highlight_values s))"
    unfolding hv_def problems_def by blast
  from counts show "highlight_numbers s = value_counts (map Improved_Location (highlight_values s))" .
  from improved_locations_Inr [OF cs]
  have "list_all2 (\<lambda>r c. improved_location problems (Location r) = Inr c) hv cs"
    by (simp add: list_all2_map1)
  then have each: "\<forall>(r, c) \<in> set (zip hv cs). improved_location problems (Location r) = Inr c"
    by (simp add: list_all2_iff)
  show "\<forall>h \<in> set (highlight_values s). py_str (Location h) \<noteq> entry"
  proof (intro ballI notI)
    fix h
    assume h: "h \<in> set (highlight_values s)" and eq: "py_str (Location h) = entry"
    from h kept kept_row_origin [of h hv cs]
    obtain r c where rc: "(r, c) \<in> set (zip hv cs)" and hr: "h = with_improved r c"
      and c: "c \<noteq> None" by auto
    from rc have "r \<in> set hv" by (rule set_zip_leftD)
    then have "Location r \<in> set (map Location hv)" by simp
    moreover from hr eq have loc: "py_str (Location r) = entry" by (simp add: with_improved_def)
    ultimately have "entry \<in> set problems"
      using a problem_locations_member [of "Location r" "map Location hv" search_fuzzy]
      unfolding problems_def by simp
    with loc nan have "improved_location problems (Location r) = Inr None"
      by (simp add: improved_location_def)
    moreover from each rc have "improved_location problems (Location r) = Inr c" by auto
    ultimately show False using c by simp
  qed
qed

theorem discard_clause_witness:
  "clean_up_location_problems ''France or Italy'' = Inr None \<and>
   highlight_stage lookup_succeeds
     [clean (sample_row (Some ''France or Italy'') None (Some ''True'')),
      clean (sample_row (Some ''England'') None (Some ''True''))]
     = Inr \<lparr>df = [clean (sample_row (Some ''France or Italy'') None (Some ''True'')),
                  clean (sample_row (Some ''England'') None (Some ''True''))],
            highlight_values =
              [with_improved (clean (sample_row (Some ''England'') None (Some ''True'')))
                 (Some ''United Kingdom'')],
            highlight_numbers = [(''United Kingdom'', 1)]\<rparr> \<and>
   py_str (Location (with_improved (clean (sample_row (Some ''England'') None (Some ''True'')))
                 (Some ''United Kingdom''))) \<noteq> ''France or Italy''"
proof -
  let ?d = "[clean (sample_row (Some ''France or Italy'') None (Some ''True'')),
             clean (sample_row (Some ''England'') None (Some ''True''))]"
  let ?s = "\<lparr>df = ?d,
             highlight_values =
               [with_improved (clean (sample_row (Some ''England'') None (Some ''True'')))
                  (Some ''United Kingdom'')],
             highlight_numbers = [(''United Kingdom'', 1)]\<rparr>"
  have bar: "CHR ''|'' \<notin> set ''France or Italy''" by simp
  have w: "split_ws ''France or Italy'' = [''France'', ''or'', ''Italy'']"
    by (simp add: isspace_def)
  have word: "set (split_ws ''France or Italy'') \<inter> discards \<noteq> {}"
    unfolding w by (simp add: discards_def)
  have prob: "check_against_iso lookup_succeeds ''France or Italy'' = False"
    by (rule check_against_iso_False)
  have c1: "clean_up_location_problems ''France or Italy'' = Inr None"
    using bar word by (simp add: clean_up_location_problems_def)
  have c2: "clean_up_location_problems ''England'' = Inr (Some ''United Kingdom'')"
    by (simp add: cleaner_defs)
  have run: "highlight_stage lookup_succeeds ?d = Inr ?s"
    by (simp add: check_against_iso_False clean_sample highlight_stage_def is_highlight_def
      problem_locations_def unique_def improved_location_def py_str_def dropna_def
      value_counts_def with_improved_def c1 c2)
  from discard_clause [OF bar word, of lookup_succeeds ?d] prob run
  have "\<forall>h \<in> set (highlight_values ?s). py_str (Location h) \<noteq> ''France or Italy''"
    by blast
  then have "py_str (Location (with_improved (clean (sample_row (Some ''England'') None (Some ''True'')))
                 (Some ''United Kingdom''))) \<noteq> ''France or Italy''"
    by simp
  with c1 run show ?thesis by blast
qed



section \<open>The whole pipeline\<close>

lemma pipeline_df:
  "pipeline search_fuzzy rows = Inr (t, f)
     \<Longrightarrow> df f = map is_highlight_astype_str (load_clean rows)"
  by (auto simp: pipeline_def Let_def split: sum.splits dest: highlight_stage_Inr)




end
